theory Spec2Isabelle
  imports Main
begin

section \<open>Values of the Go program\<close>

text \<open>
  The package \<open>apis/spaces/v1alpha1\<close> declares the outcome record of a patch attempt
  (\<open>ObjectReference\<close>), its two constructors \<open>PatchSuccess\<close> and \<open>PatchFailure\<close>, and the
  two readiness conditions \<open>Deleted\<close> and \<open>Traversed\<close>. Go strings are byte sequences and
  are modelled by \<open>string\<close>; a Go pointer that may be nil is an \<open>option\<close>; a nil
  dereference is the value \<open>Inl NilPointerDereference\<close>.
\<close>

datatype panic = NilPointerDereference

text \<open>\<open>k8s.io/utils/ptr\<close>: \<open>ptr.To(v)\<close> is \<open>&v\<close>, \<open>ptr.Deref(p, def)\<close> reads \<open>p\<close> unless it is nil.\<close>

definition ptr_To :: "'a \<Rightarrow> 'a option" where
  "ptr_To v = Some v"

definition ptr_Deref :: "'a option \<Rightarrow> 'a \<Rightarrow> 'a" where
  "ptr_Deref p def = (case p of None \<Rightarrow> def | Some v \<Rightarrow> v)"

subsection \<open>The string-typed enumerations\<close>

text \<open>\<open>type PatchState string\<close> and \<open>type PatchStateReason string\<close>, with their constants.\<close>

type_synonym UID = string
type_synonym PatchState = string
type_synonym PatchStateReason = string

definition PatchStateSuccess :: PatchState where
  "PatchStateSuccess = ''Success''"

definition PatchStateSkipped :: PatchState where
  "PatchStateSkipped = ''Skipped''"

definition PatchStateError :: PatchState where
  "PatchStateError = ''Error''"

definition PatchStateReasonConflict :: PatchStateReason where
  "PatchStateReasonConflict = ''Conflict''"

definition PatchStateReasonSchemaMismatch :: PatchStateReason where
  "PatchStateReasonSchemaMismatch = ''SchemaMismatch''"

subsection \<open>Records\<close>

text \<open>\<open>corev1.TypedObjectReference\<close>: \<open>APIGroup\<close> and \<open>Namespace\<close> are \<open>*string\<close>.\<close>

record TypedObjectReference =
  APIGroup :: "string option"
  Kind :: string
  Name :: string
  Namespace :: "string option"

text \<open>
  \<open>ObjectReference\<close> embeds a \<open>TypedObjectReference\<close>; \<open>UID\<close>, \<open>Reason\<close> and \<open>Message\<close>
  are pointers.
\<close>

record ObjectReference =
  TypedObjectReference :: TypedObjectReference
  UID :: "UID option"
  Status :: PatchState
  Reason :: "PatchStateReason option"
  Message :: "string option"

subsection \<open>Structured API errors\<close>

text \<open>
  \<open>metav1.Status\<close> with its \<open>Details\<close> (a pointer) and their \<open>Causes\<close>, as carried by a
  \<open>*kerrors.StatusError\<close> in its field \<open>ErrStatus\<close>. These types belong to
  \<open>k8s.io/apimachinery\<close>; the fields are the ones of that library, prefixed where the name
  is used by a record above.
\<close>

record StatusCause =
  cause_Type :: string
  cause_Message :: string
  cause_Field :: string

record StatusDetails =
  details_Name :: string
  details_Group :: string
  details_Kind :: string
  details_UID :: UID
  Causes :: "StatusCause list"
  RetryAfterSeconds :: int

record metav1_Status =
  status_Status :: string
  status_Message :: string
  status_Reason :: string
  status_Details :: "StatusDetails option"
  status_Code :: int

definition CauseTypeFieldManagerConflict :: string where
  "CauseTypeFieldManagerConflict = ''FieldManagerConflict''"

definition StatusReasonUnknown :: string where
  "StatusReasonUnknown = ''''"

definition StatusReasonNotFound :: string where
  "StatusReasonNotFound = ''NotFound''"

definition StatusReasonInternalError :: string where
  "StatusReasonInternalError = ''InternalError''"

text \<open>
  A non-nil Go \<open>error\<close> value, by what the classifier can observe of it: a plain error
  with its text, a \<open>*kerrors.StatusError\<close>, or an error with its own text that wraps
  another one (\<open>errors.Wrap\<close>, \<open>fmt.Errorf\<close> with \<open>%w\<close>). The nil interface value is
  \<open>None\<close> of type \<open>go_error option\<close>.
\<close>

datatype go_error =
    ErrorString string
  | StatusError metav1_Status
  | Wrapped string go_error

text \<open>\<open>err.Error()\<close>; for a \<open>StatusError\<close> it is \<open>ErrStatus.Message\<close>.\<close>

fun Error :: "go_error \<Rightarrow> string" where
  "Error (ErrorString s) = s"
| "Error (StatusError st) = status_Message st"
| "Error (Wrapped s e) = s"

text \<open>
  \<open>errors.As(err, &sErr)\<close> for \<open>sErr\<close> of type \<open>*kerrors.StatusError\<close>: the first
  \<open>StatusError\<close> on the chain of wrapped errors, read through \<open>sErr.Status()\<close>.
\<close>

fun errors_As :: "go_error \<Rightarrow> metav1_Status option" where
  "errors_As (ErrorString s) = None"
| "errors_As (StatusError st) = Some st"
| "errors_As (Wrapped s e) = errors_As e"

text \<open>
  \<open>kerrors.IsInternalError\<close> of \<open>k8s.io/apimachinery/pkg/api/errors\<close>: the reason and the
  code of the first API status on the chain; an error is internal when its reason is
  \<open>InternalError\<close>, or when its reason is not a known one and its code is 500. In this
  model \<open>StatusError\<close> is the only error that carries an API status.
\<close>

definition knownReasons :: "string list" where
  "knownReasons =
    [''Unauthorized'', ''Forbidden'', ''NotFound'', ''AlreadyExists'', ''Conflict'',
     ''Gone'', ''Invalid'', ''ServerTimeout'', ''Timeout'', ''TooManyRequests'',
     ''BadRequest'', ''MethodNotAllowed'', ''NotAcceptable'', ''RequestEntityTooLarge'',
     ''UnsupportedMediaType'', ''InternalError'', ''Expired'', ''ServiceUnavailable'']"

definition reasonAndCodeForError :: "go_error \<Rightarrow> string \<times> int" where
  "reasonAndCodeForError err =
    (case errors_As err of
       Some st \<Rightarrow> (status_Reason st, status_Code st)
     | None \<Rightarrow> (StatusReasonUnknown, 0))"

definition IsInternalError :: "go_error \<Rightarrow> bool" where
  "IsInternalError err =
    (case reasonAndCodeForError err of (reason, code) \<Rightarrow>
       if reason = StatusReasonInternalError then True
       else if reason \<notin> set knownReasons \<and> code = 500 then True
       else False)"

subsection \<open>The pattern \<open>regexFieldNotDeclared\<close>\<close>

text \<open>
  \<open>regexp.MustCompile(`failed to create typed patch object.+field not declared in schema`)\<close>
  and its \<open>MatchString\<close>: the pattern is not anchored, and \<open>.\<close> is any character but the
  newline. Both literals are ASCII, so the match can be decided on bytes.
\<close>

definition lit_failed :: string where
  "lit_failed = ''failed to create typed patch object''"

definition lit_field :: string where
  "lit_field = ''field not declared in schema''"

fun starts_with :: "string \<Rightarrow> string \<Rightarrow> bool" where
  "starts_with [] s = True"
| "starts_with (p # ps) [] = False"
| "starts_with (p # ps) (c # cs) = (p = c \<and> starts_with ps cs)"

text \<open>\<open>dot_star_then lit s\<close>: \<open>s\<close> begins with a match of \<open>.*lit\<close>.\<close>

fun dot_star_then :: "string \<Rightarrow> string \<Rightarrow> bool" where
  "dot_star_then lit [] = starts_with lit []"
| "dot_star_then lit (c # cs) =
     (starts_with lit (c # cs) \<or> (c \<noteq> CHR 0x0A \<and> dot_star_then lit cs))"

text \<open>\<open>dot_plus_then lit s\<close>: \<open>s\<close> begins with a match of \<open>.+lit\<close>.\<close>

fun dot_plus_then :: "string \<Rightarrow> string \<Rightarrow> bool" where
  "dot_plus_then lit [] = False"
| "dot_plus_then lit (c # cs) = (c \<noteq> CHR 0x0A \<and> dot_star_then lit cs)"

definition match_here :: "string \<Rightarrow> bool" where
  "match_here s =
     (starts_with lit_failed s \<and> dot_plus_then lit_field (drop (length lit_failed) s))"

fun regexFieldNotDeclared_MatchString :: "string \<Rightarrow> bool" where
  "regexFieldNotDeclared_MatchString [] = match_here []"
| "regexFieldNotDeclared_MatchString (c # cs) =
     (match_here (c # cs) \<or> regexFieldNotDeclared_MatchString cs)"

section \<open>The outcome classifier\<close>

text \<open>
  The loop of \<open>PatchFailure\<close> over \<open>Details.Causes\<close>: the state is the pair of the patch
  state and the reason; the first cause of type \<open>FieldManagerConflict\<close> sets both and
  breaks.
\<close>

fun causes_loop ::
  "StatusCause list \<Rightarrow> PatchState \<times> PatchStateReason option \<Rightarrow>
   PatchState \<times> PatchStateReason option" where
  "causes_loop [] st = st"
| "causes_loop (c # cs) st =
     (if cause_Type c = CauseTypeFieldManagerConflict
      then (PatchStateSkipped, ptr_To PatchStateReasonConflict)
      else causes_loop cs st)"

text \<open>
  \<open>PatchFailure(t, uid, err)\<close>. With a nil \<open>err\<close>, \<open>errors.As\<close> is false and
  \<open>err.Error()\<close> panics.
\<close>

definition PatchFailure ::
  "TypedObjectReference \<Rightarrow> UID option \<Rightarrow> go_error option \<Rightarrow> panic + ObjectReference" where
  "PatchFailure t uid err =
    (case err of
       None \<Rightarrow> Inl NilPointerDereference
     | Some e \<Rightarrow>
         (let (ps, reason) =
            (case errors_As e of
               None \<Rightarrow> (PatchStateError, None)
             | Some sErr \<Rightarrow>
                 if IsInternalError e \<and>
                    regexFieldNotDeclared_MatchString (status_Message sErr)
                 then (PatchStateSkipped, ptr_To PatchStateReasonSchemaMismatch)
                 else (case status_Details sErr of
                         None \<Rightarrow> (PatchStateError, ptr_To (status_Reason sErr))
                       | Some d \<Rightarrow>
                           causes_loop (Causes d)
                             (PatchStateError, ptr_To (status_Reason sErr))))
          in Inr \<lparr>TypedObjectReference = t, UID = uid, Status = ps, Reason = reason,
                  Message = ptr_To (Error e)\<rparr>))"

section \<open>The success record and the predicates on a record\<close>

text \<open>
  \<open>*unstructured.Unstructured\<close>, by what its getters return (each reads a string out of
  the object's content, the empty string when it is absent).
\<close>

record Unstructured =
  GetAPIVersion :: string
  GetKind :: string
  GetName :: string
  GetNamespace :: string
  GetUID :: UID

text \<open>\<open>PatchSuccess(u)\<close>; the getters dereference \<open>u\<close>.\<close>

definition PatchSuccess :: "Unstructured option \<Rightarrow> panic + ObjectReference" where
  "PatchSuccess u =
    (case u of
       None \<Rightarrow> Inl NilPointerDereference
     | Some obj \<Rightarrow>
         Inr \<lparr>TypedObjectReference =
                \<lparr>APIGroup = ptr_To (GetAPIVersion obj), Kind = GetKind obj,
                 Name = GetName obj, Namespace = ptr_To (GetNamespace obj)\<rparr>,
              UID = ptr_To (GetUID obj), Status = PatchStateSuccess,
              Reason = None, Message = None\<rparr>)"

text \<open>\<open>(r *ObjectReference) NotFound()\<close> reads \<open>r.Status\<close>, so a nil receiver panics.\<close>

definition NotFound :: "ObjectReference option \<Rightarrow> panic + bool" where
  "NotFound r =
    (case r of
       None \<Rightarrow> Inl NilPointerDereference
     | Some x \<Rightarrow>
         Inr (Status x = PatchStateError \<and> ptr_Deref (Reason x) [] = StatusReasonNotFound))"

subsection \<open>\<open>String\<close>\<close>

text \<open>\<open>strings.Join(elems, sep)\<close>.\<close>

fun strings_Join :: "string list \<Rightarrow> string \<Rightarrow> string" where
  "strings_Join [] sep = []"
| "strings_Join [x] sep = x"
| "strings_Join (x # y # ys) sep = x @ sep @ strings_Join (y # ys) sep"

text \<open>
  The generated \<open>String\<close> method of \<open>corev1.TypedObjectReference\<close> (of \<open>k8s.io/api\<close>): a
  pointer field is printed as \<open>nil\<close> or as \<open>*\<close> followed by its value.
\<close>

definition valueToStringGenerated :: "string option \<Rightarrow> string" where
  "valueToStringGenerated v = (case v of None \<Rightarrow> ''nil'' | Some x \<Rightarrow> ''*'' @ x)"

definition TypedObjectReference_String :: "TypedObjectReference \<Rightarrow> string" where
  "TypedObjectReference_String this =
    strings_Join
      [''&TypedObjectReference{'',
       ''APIGroup:'' @ valueToStringGenerated (APIGroup this) @ '','',
       ''Kind:'' @ Kind this @ '','',
       ''Name:'' @ Name this @ '','',
       ''Namespace:'' @ valueToStringGenerated (Namespace this) @ '','',
       ''}''] []"

text \<open>The apostrophe of the Go literals \<open>"UID: '"\<close>, \<open>"', "\<close> and so on.\<close>

definition apostrophe :: char where
  "apostrophe = CHR 0x27"

definition String :: "ObjectReference option \<Rightarrow> string" where
  "String r =
    (case r of
       None \<Rightarrow> ''nil''
     | Some x \<Rightarrow>
         strings_Join
           [TypedObjectReference_String (TypedObjectReference x), '', '',
            ''UID: '' @ [apostrophe], ptr_Deref (UID x) [], apostrophe # '', '',
            ''Status: '', Status x, '', '',
            ''Reason: '' @ [apostrophe], ptr_Deref (Reason x) [], apostrophe # '', '',
            ''Message: '' @ [apostrophe], ptr_Deref (Message x) [], [apostrophe]] [])"

section \<open>The readiness conditions\<close>

text \<open>
  \<open>xpv1.Condition\<close> of crossplane-runtime and \<open>metav1.Time\<close>; a field that the
  constructors do not set has its zero value. \<open>metav1.Now()\<close> reads the clock: the
  reading is the argument \<open>now\<close> of the two constructors.
\<close>

record Time =
  unix_sec :: int
  nsec :: nat

record Condition =
  cond_Type :: string
  cond_Status :: string
  LastTransitionTime :: Time
  cond_Reason :: string
  cond_Message :: string

definition TypeReady :: string where
  "TypeReady = ''Ready''"

definition ConditionTrue :: string where
  "ConditionTrue = ''True''"

definition ConditionFalse :: string where
  "ConditionFalse = ''False''"

definition Deleted :: "Time \<Rightarrow> Condition" where
  "Deleted now =
    \<lparr>cond_Type = TypeReady, cond_Status = ConditionFalse, LastTransitionTime = now,
     cond_Reason = ''Deleted'', cond_Message = []\<rparr>"

definition Traversed :: "Time \<Rightarrow> Condition" where
  "Traversed now =
    \<lparr>cond_Type = TypeReady, cond_Status = ConditionTrue, LastTransitionTime = now,
     cond_Reason = ''Traversed'', cond_Message = []\<rparr>"

section \<open>The status and its JSON encoding\<close>

text \<open>
  \<open>InControlPlaneOverrideStatus\<close> embeds \<open>xpv1.ResourceStatus\<close>, a type of
  crossplane-runtime: it is the type parameter \<open>'rs\<close>. \<open>ObjectRefs\<close> is a slice; the nil
  slice is \<open>None\<close> and a slice of length zero that is not nil is \<open>Some []\<close>.
\<close>

record 'rs InControlPlaneOverrideStatus =
  ResourceStatus :: 'rs
  ObjectRefs :: "ObjectReference list option"

text \<open>
  The status is serialized by \<open>encoding/json\<close>, driven by the \<open>json\<close> tags of the struct
  fields. A JSON document is modelled as a tree; its text (escaping, the coercion of
  strings to valid UTF-8) is below this model. The rules of \<open>encoding/json\<close> that the
  tags call for: the fields of a struct are written in the order of their declaration,
  those of an embedded struct in its place; a field tagged \<open>omitempty\<close> is left out when
  it is a nil pointer or a slice of length zero; a nil pointer that is not so tagged is
  written as \<open>null\<close>.
\<close>

datatype json =
    JNull
  | JBool bool
  | JNumber int
  | JString string
  | JArray "json list"
  | JObject "(string \<times> json) list"

datatype json_error = UnmarshalTypeError

text \<open>A field \<open>*string\<close> tagged \<open>json:"key,omitempty"\<close>.\<close>

definition omitempty_ptr :: "string \<Rightarrow> string option \<Rightarrow> (string \<times> json) list" where
  "omitempty_ptr key p = (case p of None \<Rightarrow> [] | Some s \<Rightarrow> [(key, JString s)])"

text \<open>
  The tags of \<open>corev1.TypedObjectReference\<close>: \<open>apiGroup\<close>, \<open>kind\<close>, \<open>name\<close> and
  \<open>namespace,omitempty\<close>.
\<close>

definition Marshal_TypedObjectReference :: "TypedObjectReference \<Rightarrow> (string \<times> json) list" where
  "Marshal_TypedObjectReference t =
    [(''apiGroup'', (case APIGroup t of None \<Rightarrow> JNull | Some g \<Rightarrow> JString g)),
     (''kind'', JString (Kind t)),
     (''name'', JString (Name t))] @
    omitempty_ptr ''namespace'' (Namespace t)"

text \<open>
  The tags of \<open>ObjectReference\<close>: the embedded reference inline, \<open>uid,omitempty\<close>,
  \<open>status\<close>, \<open>reason,omitempty\<close> and \<open>message,omitempty\<close>.
\<close>

definition Marshal_ObjectReference :: "ObjectReference \<Rightarrow> json" where
  "Marshal_ObjectReference r =
    JObject
      (Marshal_TypedObjectReference (TypedObjectReference r) @
       omitempty_ptr ''uid'' (UID r) @
       [(''status'', JString (Status r))] @
       omitempty_ptr ''reason'' (Reason r) @
       omitempty_ptr ''message'' (Message r))"

text \<open>
  The tags of \<open>InControlPlaneOverrideStatus\<close>: the embedded resource status inline, whose
  fields are written by the argument \<open>enc\<close>, and \<open>objectRefs,omitempty\<close>.
\<close>

definition Marshal_Status ::
  "('rs \<Rightarrow> (string \<times> json) list) \<Rightarrow> 'rs InControlPlaneOverrideStatus \<Rightarrow> json" where
  "Marshal_Status enc s =
    JObject
      (enc (ResourceStatus s) @
       (case ObjectRefs s of
          None \<Rightarrow> []
        | Some refs \<Rightarrow>
            if refs = [] then []
            else [(''objectRefs'', JArray (map Marshal_ObjectReference refs))]))"

text \<open>
  Decoding. \<open>json.Unmarshal\<close> walks the keys of an object in their order and stores each
  value in the field of that name; a key that names no field is skipped. \<open>null\<close> leaves
  a string as it is and sets a pointer or a slice to nil; a value of another JSON type
  than the field's is an error. Keys are compared as they are written by the encoder.
\<close>

definition set_string :: "json \<Rightarrow> string \<Rightarrow> json_error + string" where
  "set_string v cur =
    (case v of JNull \<Rightarrow> Inr cur | JString s \<Rightarrow> Inr s | _ \<Rightarrow> Inl UnmarshalTypeError)"

definition set_string_ptr :: "json \<Rightarrow> json_error + string option" where
  "set_string_ptr v =
    (case v of JNull \<Rightarrow> Inr None | JString s \<Rightarrow> Inr (Some s) | _ \<Rightarrow> Inl UnmarshalTypeError)"

fun decode_fields ::
  "(string \<times> json \<Rightarrow> 'a \<Rightarrow> json_error + 'a) \<Rightarrow> (string \<times> json) list \<Rightarrow> 'a \<Rightarrow>
   json_error + 'a" where
  "decode_fields field [] x = Inr x"
| "decode_fields field (kv # kvs) x =
     (case field kv x of Inl e \<Rightarrow> Inl e | Inr x' \<Rightarrow> decode_fields field kvs x')"

text \<open>One key of the embedded reference; \<open>Inr None\<close> when the key names none of its fields.\<close>

definition TypedObjectReference_field ::
  "string \<times> json \<Rightarrow> TypedObjectReference \<Rightarrow> json_error + TypedObjectReference option" where
  "TypedObjectReference_field kv t =
    (case kv of (k, v) \<Rightarrow>
       if k = ''apiGroup'' then map_sum id (\<lambda>x. Some (t\<lparr>APIGroup := x\<rparr>)) (set_string_ptr v)
       else if k = ''kind'' then map_sum id (\<lambda>x. Some (t\<lparr>Kind := x\<rparr>)) (set_string v (Kind t))
       else if k = ''name'' then map_sum id (\<lambda>x. Some (t\<lparr>Name := x\<rparr>)) (set_string v (Name t))
       else if k = ''namespace'' then
         map_sum id (\<lambda>x. Some (t\<lparr>Namespace := x\<rparr>)) (set_string_ptr v)
       else Inr None)"

definition ObjectReference_field ::
  "string \<times> json \<Rightarrow> ObjectReference \<Rightarrow> json_error + ObjectReference" where
  "ObjectReference_field kv r =
    (case kv of (k, v) \<Rightarrow>
       if k = ''uid'' then map_sum id (\<lambda>x. r\<lparr>UID := x\<rparr>) (set_string_ptr v)
       else if k = ''status'' then map_sum id (\<lambda>x. r\<lparr>Status := x\<rparr>) (set_string v (Status r))
       else if k = ''reason'' then map_sum id (\<lambda>x. r\<lparr>Reason := x\<rparr>) (set_string_ptr v)
       else if k = ''message'' then map_sum id (\<lambda>x. r\<lparr>Message := x\<rparr>) (set_string_ptr v)
       else (case TypedObjectReference_field kv (TypedObjectReference r) of
               Inl e \<Rightarrow> Inl e
             | Inr None \<Rightarrow> Inr r
             | Inr (Some t) \<Rightarrow> Inr (r\<lparr>TypedObjectReference := t\<rparr>)))"

text \<open>The zero value of \<open>ObjectReference\<close>, into which an element of the array is decoded.\<close>

definition zero_ObjectReference :: ObjectReference where
  "zero_ObjectReference =
    \<lparr>TypedObjectReference = \<lparr>APIGroup = None, Kind = [], Name = [], Namespace = None\<rparr>,
     UID = None, Status = [], Reason = None, Message = None\<rparr>"

definition Unmarshal_ObjectReference ::
  "json \<Rightarrow> ObjectReference \<Rightarrow> json_error + ObjectReference" where
  "Unmarshal_ObjectReference v cur =
    (case v of
       JNull \<Rightarrow> Inr cur
     | JObject kvs \<Rightarrow> decode_fields ObjectReference_field kvs cur
     | _ \<Rightarrow> Inl UnmarshalTypeError)"

fun Unmarshal_elems :: "json list \<Rightarrow> json_error + ObjectReference list" where
  "Unmarshal_elems [] = Inr []"
| "Unmarshal_elems (v # vs) =
     (case Unmarshal_ObjectReference v zero_ObjectReference of
        Inl e \<Rightarrow> Inl e
      | Inr r \<Rightarrow> (case Unmarshal_elems vs of Inl e \<Rightarrow> Inl e | Inr rs \<Rightarrow> Inr (r # rs)))"

text \<open>
  One key of the status: \<open>objectRefs\<close> is the field of the status itself (an array
  decodes to a slice that is not nil, also when it is empty); every other key goes to
  the embedded resource status, whose fields are read by the argument \<open>dec\<close>.
\<close>

definition Status_field ::
  "(string \<times> json \<Rightarrow> 'rs \<Rightarrow> json_error + 'rs) \<Rightarrow> string \<times> json \<Rightarrow>
   'rs InControlPlaneOverrideStatus \<Rightarrow> json_error + 'rs InControlPlaneOverrideStatus" where
  "Status_field dec kv s =
    (case kv of (k, v) \<Rightarrow>
       if k = ''objectRefs'' then
         (case v of
            JNull \<Rightarrow> Inr (s\<lparr>ObjectRefs := None\<rparr>)
          | JArray vs \<Rightarrow> map_sum id (\<lambda>refs. s\<lparr>ObjectRefs := Some refs\<rparr>) (Unmarshal_elems vs)
          | _ \<Rightarrow> Inl UnmarshalTypeError)
       else map_sum id (\<lambda>x. s\<lparr>ResourceStatus := x\<rparr>) (dec kv (ResourceStatus s)))"

text \<open>Decoding into a fresh status: \<open>zero\<close> is the zero value of the embedded part.\<close>

definition Unmarshal_Status ::
  "(string \<times> json \<Rightarrow> 'rs \<Rightarrow> json_error + 'rs) \<Rightarrow> 'rs \<Rightarrow> json \<Rightarrow>
   json_error + 'rs InControlPlaneOverrideStatus" where
  "Unmarshal_Status dec zero v =
    (case v of
       JNull \<Rightarrow> Inr \<lparr>ResourceStatus = zero, ObjectRefs = None\<rparr>
     | JObject kvs \<Rightarrow>
         decode_fields (Status_field dec) kvs \<lparr>ResourceStatus = zero, ObjectRefs = None\<rparr>
     | _ \<Rightarrow> Inl UnmarshalTypeError)"

section \<open>Sample inputs\<close>

definition sample_ref :: TypedObjectReference where
  "sample_ref =
    \<lparr>APIGroup = Some ''example.org/v1'', Kind = ''Bucket'', Name = ''b1'',
     Namespace = Some ''default''\<rparr>"

definition sample_uid :: "UID option" where
  "sample_uid = Some ''7f1c''"

definition conflict_cause :: StatusCause where
  "conflict_cause =
    \<lparr>cause_Type = ''FieldManagerConflict'', cause_Message = ''conflict with kubectl'',
     cause_Field = ''.spec.forProvider.region''\<rparr>"

definition conflict_details :: StatusDetails where
  "conflict_details =
    \<lparr>details_Name = ''b1'', details_Group = ''example.org'', details_Kind = ''buckets'',
     details_UID = [], Causes = [conflict_cause], RetryAfterSeconds = 0\<rparr>"

text \<open>An internal error with the field-not-declared message and no details.\<close>

definition schema_status :: metav1_Status where
  "schema_status =
    \<lparr>status_Status = ''Failure'',
     status_Message =
       ''failed to create typed patch object (/b1; example.org/v1, Kind=Bucket): .spec.paused: field not declared in schema'',
     status_Reason = ''InternalError'', status_Details = None, status_Code = 500\<rparr>"

text \<open>The same internal error, carrying a field-manager conflict among its causes.\<close>

definition schema_conflict_status :: metav1_Status where
  "schema_conflict_status = schema_status\<lparr>status_Details := Some conflict_details\<rparr>"

text \<open>A conflict of field managers, as the API server reports it.\<close>

definition conflict_status :: metav1_Status where
  "conflict_status =
    \<lparr>status_Status = ''Failure'',
     status_Message = ''Apply failed with 1 conflict: conflict with kubectl: .spec.forProvider.region'',
     status_Reason = ''Conflict'', status_Details = Some conflict_details,
     status_Code = 409\<rparr>"

text \<open>What \<open>kerrors.NewNotFound\<close> builds: details without causes.\<close>

definition not_found_details :: StatusDetails where
  "not_found_details =
    \<lparr>details_Name = ''b1'', details_Group = ''example.org'', details_Kind = ''buckets'',
     details_UID = [], Causes = [], RetryAfterSeconds = 0\<rparr>"

definition not_found_status :: metav1_Status where
  "not_found_status =
    \<lparr>status_Status = ''Failure'',
     status_Message = ''buckets.example.org b1 not found'',
     status_Reason = ''NotFound'',
     status_Details = Some not_found_details,
     status_Code = 404\<rparr>"

definition transport_error :: go_error where
  "transport_error =
    Wrapped ''cannot patch object: dial tcp 10.0.0.1:443: connect: connection refused''
      (ErrorString ''dial tcp 10.0.0.1:443: connect: connection refused'')"

definition sample_object :: Unstructured where
  "sample_object =
    \<lparr>GetAPIVersion = ''example.org/v1'', GetKind = ''Bucket'', GetName = ''b1'',
     GetNamespace = ''default'', GetUID = ''7f1c''\<rparr>"





section \<open>The matcher decides the pattern\<close>

text \<open>
  \<open>regexFieldNotDeclared_MatchString\<close> holds exactly of the strings in which the first
  literal is followed by one or more characters other than the newline and then by the
  second literal.
\<close>

lemma starts_with_iff: "starts_with p s \<longleftrightarrow> (\<exists>post. s = p @ post)"
  by (induction p s rule: starts_with.induct) auto

lemma dot_star_then_iff:
  "dot_star_then lit s \<longleftrightarrow> (\<exists>mid post. s = mid @ lit @ post \<and> CHR 0x0A \<notin> set mid)"
proof (induction s)
  case Nil
  then show ?case
    by (auto simp: starts_with_iff)
next
  case (Cons c cs)
  show ?case
  proof
    assume "dot_star_then lit (c # cs)"
    then consider "starts_with lit (c # cs)" | "c \<noteq> CHR 0x0A" "dot_star_then lit cs"
      by auto
    then show "\<exists>mid post. c # cs = mid @ lit @ post \<and> CHR 0x0A \<notin> set mid"
    proof cases
      case 1
      then obtain post where "c # cs = [] @ lit @ post"
        by (auto simp: starts_with_iff)
      then show ?thesis
        by (metis empty_iff list.set(1))
    next
      case 2
      with Cons.IH obtain mid post where "cs = mid @ lit @ post" "CHR 0x0A \<notin> set mid"
        by auto
      with 2(1) have "c # cs = (c # mid) @ lit @ post \<and> CHR 0x0A \<notin> set (c # mid)"
        by simp
      then show ?thesis
        by blast
    qed
  next
    assume "\<exists>mid post. c # cs = mid @ lit @ post \<and> CHR 0x0A \<notin> set mid"
    then obtain mid post where eq: "c # cs = mid @ lit @ post" and nl: "CHR 0x0A \<notin> set mid"
      by blast
    show "dot_star_then lit (c # cs)"
    proof (cases mid)
      case Nil
      with eq have "starts_with lit (c # cs)"
        by (simp add: starts_with_iff)
      then show ?thesis
        by simp
    next
      case (Cons m ms)
      with eq nl have "c = m" "cs = ms @ lit @ post" "m \<noteq> CHR 0x0A" "CHR 0x0A \<notin> set ms"
        by auto
      with Cons.IH show ?thesis
        by auto
    qed
  qed
qed

lemma dot_plus_then_iff:
  "dot_plus_then lit s \<longleftrightarrow>
     (\<exists>mid post. s = mid @ lit @ post \<and> mid \<noteq> [] \<and> CHR 0x0A \<notin> set mid)"
proof (cases s)
  case Nil
  then show ?thesis
    by simp
next
  case (Cons c cs)
  show ?thesis
  proof
    assume "dot_plus_then lit s"
    with Cons obtain mid post where "c \<noteq> CHR 0x0A" "cs = mid @ lit @ post" "CHR 0x0A \<notin> set mid"
      by (auto simp: dot_star_then_iff)
    with Cons have "s = (c # mid) @ lit @ post \<and> c # mid \<noteq> [] \<and> CHR 0x0A \<notin> set (c # mid)"
      by simp
    then show "\<exists>mid post. s = mid @ lit @ post \<and> mid \<noteq> [] \<and> CHR 0x0A \<notin> set mid"
      by blast
  next
    assume "\<exists>mid post. s = mid @ lit @ post \<and> mid \<noteq> [] \<and> CHR 0x0A \<notin> set mid"
    then obtain m ms post where "s = (m # ms) @ lit @ post" "CHR 0x0A \<notin> set (m # ms)"
      by (metis list.exhaust)
    with Cons have "c \<noteq> CHR 0x0A" "cs = ms @ lit @ post" "CHR 0x0A \<notin> set ms"
      by auto
    with Cons show "dot_plus_then lit s"
      by (auto simp: dot_star_then_iff)
  qed
qed

lemma match_here_iff:
  "match_here s \<longleftrightarrow>
     (\<exists>mid post. s = lit_failed @ mid @ lit_field @ post \<and> mid \<noteq> [] \<and> CHR 0x0A \<notin> set mid)"
proof
  assume "match_here s"
  then obtain rest where s: "s = lit_failed @ rest" and "dot_plus_then lit_field rest"
    by (auto simp: match_here_def starts_with_iff)
  then obtain mid post where "rest = mid @ lit_field @ post" "mid \<noteq> []" "CHR 0x0A \<notin> set mid"
    by (auto simp: dot_plus_then_iff)
  with s show "\<exists>mid post. s = lit_failed @ mid @ lit_field @ post \<and> mid \<noteq> [] \<and>
      CHR 0x0A \<notin> set mid"
    by blast
next
  assume "\<exists>mid post. s = lit_failed @ mid @ lit_field @ post \<and> mid \<noteq> [] \<and>
      CHR 0x0A \<notin> set mid"
  then obtain mid post where s: "s = lit_failed @ mid @ lit_field @ post"
    and mid: "mid \<noteq> []" "CHR 0x0A \<notin> set mid"
    by blast
  from mid have "dot_plus_then lit_field (mid @ lit_field @ post)"
    unfolding dot_plus_then_iff by blast
  with s show "match_here s"
    by (simp add: match_here_def starts_with_iff)
qed

lemma regexFieldNotDeclared_MatchString_iff:
  "regexFieldNotDeclared_MatchString s \<longleftrightarrow>
     (\<exists>pre mid post. s = pre @ lit_failed @ mid @ lit_field @ post \<and>
        mid \<noteq> [] \<and> CHR 0x0A \<notin> set mid)"
proof (induction s)
  case Nil
  have "lit_failed \<noteq> []"
    by (simp add: lit_failed_def)
  then show ?case
    by (auto simp: match_here_iff)
next
  case (Cons c cs)
  show ?case
  proof
    assume "regexFieldNotDeclared_MatchString (c # cs)"
    then consider "match_here (c # cs)" | "regexFieldNotDeclared_MatchString cs"
      by auto
    then show "\<exists>pre mid post. c # cs = pre @ lit_failed @ mid @ lit_field @ post \<and>
        mid \<noteq> [] \<and> CHR 0x0A \<notin> set mid"
    proof cases
      case 1
      then obtain mid post where
        "c # cs = [] @ lit_failed @ mid @ lit_field @ post \<and> mid \<noteq> [] \<and> CHR 0x0A \<notin> set mid"
        by (auto simp: match_here_iff)
      then show ?thesis
        by blast
    next
      case 2
      with Cons.IH obtain pre mid post where
        "cs = pre @ lit_failed @ mid @ lit_field @ post" "mid \<noteq> []" "CHR 0x0A \<notin> set mid"
        by auto
      then have "c # cs = (c # pre) @ lit_failed @ mid @ lit_field @ post \<and>
          mid \<noteq> [] \<and> CHR 0x0A \<notin> set mid"
        by simp
      then show ?thesis
        by blast
    qed
  next
    assume "\<exists>pre mid post. c # cs = pre @ lit_failed @ mid @ lit_field @ post \<and>
        mid \<noteq> [] \<and> CHR 0x0A \<notin> set mid"
    then obtain pre mid post where
      eq: "c # cs = pre @ lit_failed @ mid @ lit_field @ post" and
      mid: "mid \<noteq> []" "CHR 0x0A \<notin> set mid"
      by blast
    show "regexFieldNotDeclared_MatchString (c # cs)"
    proof (cases pre)
      case Nil
      with eq mid have "match_here (c # cs)"
        unfolding match_here_iff by auto
      then show ?thesis
        by simp
    next
      case (Cons p ps)
      with eq have "cs = ps @ lit_failed @ mid @ lit_field @ post"
        by simp
      with mid Cons.IH have "regexFieldNotDeclared_MatchString cs"
        by blast
      then show ?thesis
        by simp
    qed
  qed
qed

section \<open>Properties of the classifier\<close>

lemma causes_loop_conflict:
  "\<exists>c \<in> set cs. cause_Type c = CauseTypeFieldManagerConflict \<Longrightarrow>
   causes_loop cs st = (PatchStateSkipped, Some PatchStateReasonConflict)"
  by (induction cs) (auto simp: ptr_To_def)

lemma causes_loop_no_conflict:
  "\<forall>c \<in> set cs. cause_Type c \<noteq> CauseTypeFieldManagerConflict \<Longrightarrow> causes_loop cs st = st"
  by (induction cs) auto

lemma PatchFailure_schema_rule:
  assumes "errors_As e = Some sErr"
    and "IsInternalError e"
    and "regexFieldNotDeclared_MatchString (status_Message sErr)"
  shows "PatchFailure t uid (Some e) =
    Inr \<lparr>TypedObjectReference = t, UID = uid, Status = PatchStateSkipped,
         Reason = Some PatchStateReasonSchemaMismatch, Message = Some (Error e)\<rparr>"
  using assms by (simp add: PatchFailure_def ptr_To_def)

lemma PatchFailure_conflict_rule:
  assumes "errors_As e = Some sErr"
    and "\<not> (IsInternalError e \<and> regexFieldNotDeclared_MatchString (status_Message sErr))"
    and "status_Details sErr = Some d"
    and "\<exists>c \<in> set (Causes d). cause_Type c = CauseTypeFieldManagerConflict"
  shows "PatchFailure t uid (Some e) =
    Inr \<lparr>TypedObjectReference = t, UID = uid, Status = PatchStateSkipped,
         Reason = Some PatchStateReasonConflict, Message = Some (Error e)\<rparr>"
  using assms by (auto simp: PatchFailure_def ptr_To_def causes_loop_conflict)

lemma PatchFailure_other_rule:
  assumes "errors_As e = Some sErr"
    and "\<not> (IsInternalError e \<and> regexFieldNotDeclared_MatchString (status_Message sErr))"
    and "\<forall>d. status_Details sErr = Some d \<longrightarrow>
           (\<forall>c \<in> set (Causes d). cause_Type c \<noteq> CauseTypeFieldManagerConflict)"
  shows "PatchFailure t uid (Some e) =
    Inr \<lparr>TypedObjectReference = t, UID = uid, Status = PatchStateError,
         Reason = Some (status_Reason sErr), Message = Some (Error e)\<rparr>"
  using assms
  by (auto simp: PatchFailure_def ptr_To_def causes_loop_no_conflict split: option.splits)

lemma PatchFailure_unstructured:
  assumes "errors_As e = None"
  shows "PatchFailure t uid (Some e) =
    Inr \<lparr>TypedObjectReference = t, UID = uid, Status = PatchStateError,
         Reason = None, Message = Some (Error e)\<rparr>"
  using assms by (simp add: PatchFailure_def ptr_To_def)

lemma not_internal_NotFound:
  assumes "errors_As e = Some sErr" and "status_Reason sErr = StatusReasonNotFound"
  shows "\<not> IsInternalError e"
  using assms
  by (simp add: IsInternalError_def reasonAndCodeForError_def StatusReasonNotFound_def
      StatusReasonInternalError_def knownReasons_def)

lemma NotFound_Some:
  "NotFound (Some r) = Inr (Status r = ''Error'' \<and> Reason r = Some ''NotFound'')"
  by (cases "Reason r")
     (auto simp: NotFound_def ptr_Deref_def PatchStateError_def StatusReasonNotFound_def)


lemma causes_loop_states:
  "fst st = PatchStateError \<Longrightarrow>
   fst (causes_loop cs st) = PatchStateSkipped \<or> fst (causes_loop cs st) = PatchStateError"
  by (induction cs) auto

lemma PatchFailure_states:
  "\<exists>r. PatchFailure t uid (Some e) = Inr r \<and> (Status r = ''Skipped'' \<or> Status r = ''Error'')"
proof (cases "errors_As e")
  case None
  then show ?thesis
    by (simp add: PatchFailure_def PatchStateError_def)
next
  case (Some sErr)
  show ?thesis
  proof (cases "IsInternalError e \<and> regexFieldNotDeclared_MatchString (status_Message sErr)")
    case True
    with Some show ?thesis
      by (simp add: PatchFailure_def PatchStateSkipped_def)
  next
    case False
    show ?thesis
    proof (cases "status_Details sErr")
      case None
      with Some False show ?thesis
        by (auto simp: PatchFailure_def PatchStateError_def)
    next
      case (Some d)
      from causes_loop_states [of "(PatchStateError, ptr_To (status_Reason sErr))" "Causes d"]
      have "fst (causes_loop (Causes d) (PatchStateError, ptr_To (status_Reason sErr))) = ''Skipped'' \<or>
            fst (causes_loop (Causes d) (PatchStateError, ptr_To (status_Reason sErr))) = ''Error''"
        by (simp add: PatchStateSkipped_def PatchStateError_def)
      with Some \<open>errors_As e = Some sErr\<close> False show ?thesis
        by (auto simp: PatchFailure_def split: prod.split)
    qed
  qed
qed

text \<open>With a nil error, or on a nil receiver or object, the functions panic.\<close>

lemma nil_arguments_panic:
  "PatchFailure t uid None = Inl NilPointerDereference"
  "PatchSuccess None = Inl NilPointerDereference"
  "NotFound None = Inl NilPointerDereference"
  by (simp_all add: PatchFailure_def PatchSuccess_def NotFound_def)

subsection \<open>The order of the rules\<close>

text \<open>
  Claim C1, as the code has it. The \<open>switch\<close> of \<open>PatchFailure\<close> tests the
  schema-mismatch case first: an error that is a structured internal error with a
  message matching the field-not-declared pattern, and that also carries a
  field-manager-conflict cause in its status details, is classified \<open>Skipped\<close> with
  reason \<open>SchemaMismatch\<close>.
\<close>

theorem schema_mismatch_before_conflict:
  assumes "errors_As e = Some sErr"
    and "IsInternalError e"
    and "regexFieldNotDeclared_MatchString (status_Message sErr)"
    and "status_Details sErr = Some d"
    and "\<exists>c \<in> set (Causes d). cause_Type c = CauseTypeFieldManagerConflict"
  shows "PatchFailure t uid (Some e) =
    Inr \<lparr>TypedObjectReference = t, UID = uid, Status = PatchStateSkipped,
         Reason = Some PatchStateReasonSchemaMismatch, Message = Some (Error e)\<rparr>"
  using assms(1-3) by (rule PatchFailure_schema_rule)

theorem schema_mismatch_before_conflict_witness:
  "errors_As (StatusError schema_conflict_status) = Some schema_conflict_status \<and>
   IsInternalError (StatusError schema_conflict_status) \<and>
   regexFieldNotDeclared_MatchString (status_Message schema_conflict_status) \<and>
   status_Details schema_conflict_status = Some conflict_details \<and>
   (\<exists>c \<in> set (Causes conflict_details). cause_Type c = CauseTypeFieldManagerConflict) \<and>
   PatchFailure sample_ref sample_uid (Some (StatusError schema_conflict_status)) =
     Inr \<lparr>TypedObjectReference = sample_ref, UID = sample_uid, Status = PatchStateSkipped,
          Reason = Some PatchStateReasonSchemaMismatch,
          Message = Some (Error (StatusError schema_conflict_status))\<rparr>"
proof -
  have h1: "errors_As (StatusError schema_conflict_status) = Some schema_conflict_status"
    by simp
  have h2: "IsInternalError (StatusError schema_conflict_status)"
    by code_simp
  have h3: "regexFieldNotDeclared_MatchString (status_Message schema_conflict_status)"
    by code_simp
  have h4: "status_Details schema_conflict_status = Some conflict_details"
    by (simp add: schema_conflict_status_def)
  have h5: "\<exists>c \<in> set (Causes conflict_details). cause_Type c = CauseTypeFieldManagerConflict"
    by (simp add: conflict_details_def conflict_cause_def CauseTypeFieldManagerConflict_def)
  show ?thesis
    using schema_mismatch_before_conflict [OF h1 h2 h3 h4 h5, of sample_ref sample_uid]
      h1 h2 h3 h4 h5
    by simp
qed

text \<open>
  Claim C1, as the specification states it (the conflict rule before the schema-mismatch
  rule), fails: the sample error below satisfies both rules and its reason is not
  \<open>Conflict\<close>.
\<close>

theorem conflict_before_schema_mismatch_counterexample:
  "errors_As (StatusError schema_conflict_status) = Some schema_conflict_status \<and>
   IsInternalError (StatusError schema_conflict_status) \<and>
   regexFieldNotDeclared_MatchString (status_Message schema_conflict_status) \<and>
   status_Details schema_conflict_status = Some conflict_details \<and>
   conflict_cause \<in> set (Causes conflict_details) \<and>
   cause_Type conflict_cause = CauseTypeFieldManagerConflict \<and>
   PatchFailure sample_ref sample_uid (Some (StatusError schema_conflict_status)) \<noteq>
     Inr \<lparr>TypedObjectReference = sample_ref, UID = sample_uid, Status = PatchStateSkipped,
          Reason = Some PatchStateReasonConflict,
          Message = Some (Error (StatusError schema_conflict_status))\<rparr>"
proof -
  have h1: "errors_As (StatusError schema_conflict_status) = Some schema_conflict_status"
    by simp
  have h2: "IsInternalError (StatusError schema_conflict_status)"
    by code_simp
  have h3: "regexFieldNotDeclared_MatchString (status_Message schema_conflict_status)"
    by code_simp
  have h4: "status_Details schema_conflict_status = Some conflict_details"
    by (simp add: schema_conflict_status_def)
  have h5: "conflict_cause \<in> set (Causes conflict_details)"
    by (simp add: conflict_details_def)
  have h6: "cause_Type conflict_cause = CauseTypeFieldManagerConflict"
    by (simp add: conflict_cause_def CauseTypeFieldManagerConflict_def)
  have h7: "PatchStateReasonSchemaMismatch \<noteq> PatchStateReasonConflict"
    by (simp add: PatchStateReasonSchemaMismatch_def PatchStateReasonConflict_def)
  show ?thesis
    using PatchFailure_schema_rule [OF h1 h2 h3, of sample_ref sample_uid] h1 h2 h3 h4 h5 h6 h7
    by simp
qed

subsection \<open>The rules one by one\<close>

text \<open>
  Claim C2. A structured API error (one that unwraps to a \<open>StatusError\<close>) that is an
  internal error and whose status message matches the field-not-declared pattern is
  classified \<open>Skipped\<close> with reason \<open>SchemaMismatch\<close>.
\<close>

theorem schema_mismatch_skipped:
  assumes "errors_As e = Some sErr"
    and "IsInternalError e"
    and "regexFieldNotDeclared_MatchString (status_Message sErr)"
  shows "PatchFailure t uid (Some e) =
    Inr \<lparr>TypedObjectReference = t, UID = uid, Status = ''Skipped'',
         Reason = Some ''SchemaMismatch'', Message = Some (Error e)\<rparr>"
  using PatchFailure_schema_rule [OF assms]
  by (simp add: PatchStateSkipped_def PatchStateReasonSchemaMismatch_def)

theorem schema_mismatch_skipped_witness:
  "errors_As (Wrapped ''cannot patch'' (StatusError schema_status)) = Some schema_status \<and>
   IsInternalError (Wrapped ''cannot patch'' (StatusError schema_status)) \<and>
   regexFieldNotDeclared_MatchString (status_Message schema_status) \<and>
   PatchFailure sample_ref sample_uid (Some (Wrapped ''cannot patch'' (StatusError schema_status))) =
     Inr \<lparr>TypedObjectReference = sample_ref, UID = sample_uid, Status = ''Skipped'',
          Reason = Some ''SchemaMismatch'', Message = Some ''cannot patch''\<rparr>"
proof -
  have h1: "errors_As (Wrapped ''cannot patch'' (StatusError schema_status)) = Some schema_status"
    by simp
  have h2: "IsInternalError (Wrapped ''cannot patch'' (StatusError schema_status))"
    by code_simp
  have h3: "regexFieldNotDeclared_MatchString (status_Message schema_status)"
    by code_simp
  show ?thesis
    using schema_mismatch_skipped [OF h1 h2 h3, of sample_ref sample_uid] h1 h2 h3
    by simp
qed

text \<open>
  Claim C3. A structured API error that is not an internal error matching the
  field-not-declared pattern, and whose status details hold at least one cause of type
  \<open>FieldManagerConflict\<close>, is classified \<open>Skipped\<close> with reason \<open>Conflict\<close>.
\<close>

theorem conflict_skipped:
  assumes "errors_As e = Some sErr"
    and "\<not> (IsInternalError e \<and> regexFieldNotDeclared_MatchString (status_Message sErr))"
    and "status_Details sErr = Some d"
    and "\<exists>c \<in> set (Causes d). cause_Type c = ''FieldManagerConflict''"
  shows "PatchFailure t uid (Some e) =
    Inr \<lparr>TypedObjectReference = t, UID = uid, Status = ''Skipped'',
         Reason = Some ''Conflict'', Message = Some (Error e)\<rparr>"
proof -
  from assms(4)
  have "\<exists>c \<in> set (Causes d). cause_Type c = CauseTypeFieldManagerConflict"
    by (simp add: CauseTypeFieldManagerConflict_def)
  from PatchFailure_conflict_rule [OF assms(1-3) this]
  show ?thesis
    by (simp add: PatchStateSkipped_def PatchStateReasonConflict_def)
qed

theorem conflict_skipped_witness:
  "errors_As (StatusError conflict_status) = Some conflict_status \<and>
   \<not> (IsInternalError (StatusError conflict_status) \<and>
      regexFieldNotDeclared_MatchString (status_Message conflict_status)) \<and>
   status_Details conflict_status = Some conflict_details \<and>
   (\<exists>c \<in> set (Causes conflict_details). cause_Type c = ''FieldManagerConflict'') \<and>
   PatchFailure sample_ref sample_uid (Some (StatusError conflict_status)) =
     Inr \<lparr>TypedObjectReference = sample_ref, UID = sample_uid, Status = ''Skipped'',
          Reason = Some ''Conflict'',
          Message = Some ''Apply failed with 1 conflict: conflict with kubectl: .spec.forProvider.region''\<rparr>"
proof -
  have h1: "errors_As (StatusError conflict_status) = Some conflict_status"
    by simp
  have "\<not> IsInternalError (StatusError conflict_status)"
    by code_simp
  then have h2: "\<not> (IsInternalError (StatusError conflict_status) \<and>
      regexFieldNotDeclared_MatchString (status_Message conflict_status))"
    by simp
  have h3: "status_Details conflict_status = Some conflict_details"
    by (simp add: conflict_status_def)
  have h4: "\<exists>c \<in> set (Causes conflict_details). cause_Type c = ''FieldManagerConflict''"
    by (simp add: conflict_details_def conflict_cause_def)
  have h5: "status_Message conflict_status =
      ''Apply failed with 1 conflict: conflict with kubectl: .spec.forProvider.region''"
    by (simp add: conflict_status_def)
  show ?thesis
    using conflict_skipped [OF h1 h2 h3 h4, of sample_ref sample_uid] h1 h2 h3 h4 h5
    by simp
qed

text \<open>
  Claim C4. A structured API error that matches neither the schema-mismatch rule nor
  the field-manager-conflict rule is classified \<open>Error\<close>, with the reason of its API
  status and with the error text as message. In particular a structured error whose
  status reason is \<open>NotFound\<close>, and that carries no conflict cause, yields \<open>Error\<close> with
  reason \<open>NotFound\<close>; and \<open>NotFound\<close> on a record is true exactly when its status is
  \<open>Error\<close> and its reason is \<open>NotFound\<close>.
\<close>

theorem other_structured_error:
  assumes "errors_As e = Some sErr"
    and "\<forall>d. status_Details sErr = Some d \<longrightarrow>
           (\<forall>c \<in> set (Causes d). cause_Type c \<noteq> ''FieldManagerConflict'')"
  shows "(\<not> (IsInternalError e \<and> regexFieldNotDeclared_MatchString (status_Message sErr)) \<longrightarrow>
            PatchFailure t uid (Some e) =
              Inr \<lparr>TypedObjectReference = t, UID = uid, Status = ''Error'',
                   Reason = Some (status_Reason sErr), Message = Some (Error e)\<rparr>) \<and>
         (status_Reason sErr = ''NotFound'' \<longrightarrow>
            PatchFailure t uid (Some e) =
              Inr \<lparr>TypedObjectReference = t, UID = uid, Status = ''Error'',
                   Reason = Some ''NotFound'', Message = Some (Error e)\<rparr>) \<and>
         (\<forall>r. NotFound (Some r) = Inr (Status r = ''Error'' \<and> Reason r = Some ''NotFound''))"
proof -
  from assms(2)
  have nc: "\<forall>d. status_Details sErr = Some d \<longrightarrow>
      (\<forall>c \<in> set (Causes d). cause_Type c \<noteq> CauseTypeFieldManagerConflict)"
    by (simp add: CauseTypeFieldManagerConflict_def)
  have general: "PatchFailure t uid (Some e) =
      Inr \<lparr>TypedObjectReference = t, UID = uid, Status = ''Error'',
           Reason = Some (status_Reason sErr), Message = Some (Error e)\<rparr>"
    if "\<not> (IsInternalError e \<and> regexFieldNotDeclared_MatchString (status_Message sErr))"
    using PatchFailure_other_rule [OF assms(1) that nc]
    by (simp add: PatchStateError_def)
  have "\<not> IsInternalError e" if "status_Reason sErr = ''NotFound''"
    using not_internal_NotFound [OF assms(1)] that
    by (simp add: StatusReasonNotFound_def)
  with general have particular: "PatchFailure t uid (Some e) =
      Inr \<lparr>TypedObjectReference = t, UID = uid, Status = ''Error'',
           Reason = Some ''NotFound'', Message = Some (Error e)\<rparr>"
    if "status_Reason sErr = ''NotFound''"
    using that by simp
  from general particular NotFound_Some show ?thesis
    by blast
qed

theorem other_structured_error_witness:
  "errors_As (StatusError not_found_status) = Some not_found_status \<and>
   status_Details not_found_status = Some not_found_details \<and>
   Causes not_found_details = [] \<and>
   \<not> (IsInternalError (StatusError not_found_status) \<and>
      regexFieldNotDeclared_MatchString (status_Message not_found_status)) \<and>
   status_Reason not_found_status = ''NotFound'' \<and>
   PatchFailure sample_ref sample_uid (Some (StatusError not_found_status)) =
     Inr \<lparr>TypedObjectReference = sample_ref, UID = sample_uid, Status = ''Error'',
          Reason = Some ''NotFound'', Message = Some ''buckets.example.org b1 not found''\<rparr> \<and>
   NotFound (Some \<lparr>TypedObjectReference = sample_ref, UID = sample_uid, Status = ''Error'',
          Reason = Some ''NotFound'', Message = Some ''buckets.example.org b1 not found''\<rparr>) =
     Inr True"
proof -
  have h1: "errors_As (StatusError not_found_status) = Some not_found_status"
    by simp
  have h2: "\<forall>d. status_Details not_found_status = Some d \<longrightarrow>
      (\<forall>c \<in> set (Causes d). cause_Type c \<noteq> ''FieldManagerConflict'')"
    by (simp add: not_found_status_def not_found_details_def)
  have "\<not> IsInternalError (StatusError not_found_status)"
    by code_simp
  then have h3: "\<not> (IsInternalError (StatusError not_found_status) \<and>
      regexFieldNotDeclared_MatchString (status_Message not_found_status))"
    by simp
  have h4: "status_Reason not_found_status = ''NotFound''"
    by (simp add: not_found_status_def)
  have h6: "status_Details not_found_status = Some not_found_details"
    by (simp add: not_found_status_def)
  have h7: "Causes not_found_details = []"
    by (simp add: not_found_details_def)
  have h5: "status_Message not_found_status = ''buckets.example.org b1 not found''"
    by (simp add: not_found_status_def)
  show ?thesis
    using other_structured_error [OF h1 h2, of sample_ref sample_uid] h1 h3 h4 h5 h6 h7
    by simp
qed

text \<open>
  Claim C5. An error that does not unwrap to a \<open>StatusError\<close> is classified \<open>Error\<close>,
  its reason is nil and its message is the error text.
\<close>

theorem unstructured_error:
  assumes "errors_As e = None"
  shows "PatchFailure t uid (Some e) =
    Inr \<lparr>TypedObjectReference = t, UID = uid, Status = ''Error'',
         Reason = None, Message = Some (Error e)\<rparr>"
  using PatchFailure_unstructured [OF assms] by (simp add: PatchStateError_def)

theorem unstructured_error_witness:
  "errors_As transport_error = None \<and>
   PatchFailure sample_ref sample_uid (Some transport_error) =
     Inr \<lparr>TypedObjectReference = sample_ref, UID = sample_uid, Status = ''Error'',
          Reason = None,
          Message = Some ''cannot patch object: dial tcp 10.0.0.1:443: connect: connection refused''\<rparr>"
proof -
  have h: "errors_As transport_error = None"
    by (simp add: transport_error_def)
  have t: "Error transport_error =
      ''cannot patch object: dial tcp 10.0.0.1:443: connect: connection refused''"
    by (simp add: transport_error_def)
  show ?thesis
    using unstructured_error [OF h, of sample_ref sample_uid] h t by simp
qed

text \<open>
  Claim C7. \<open>PatchFailure\<close> returns a record for every error value, structured or not,
  and the patch state and the reason of that record are determined by the error alone:
  they are the same for every target reference and UID, so two calls with the same
  arguments agree on them.
\<close>

theorem PatchFailure_total_deterministic:
  "\<exists>ps reason. \<forall>t uid.
     PatchFailure t uid (Some e) =
       Inr \<lparr>TypedObjectReference = t, UID = uid, Status = ps, Reason = reason,
            Message = Some (Error e)\<rparr>"
proof -
  obtain ps reason where c:
    "(case errors_As e of
        None \<Rightarrow> (PatchStateError, None)
      | Some sErr \<Rightarrow>
          if IsInternalError e \<and> regexFieldNotDeclared_MatchString (status_Message sErr)
          then (PatchStateSkipped, ptr_To PatchStateReasonSchemaMismatch)
          else (case status_Details sErr of
                  None \<Rightarrow> (PatchStateError, ptr_To (status_Reason sErr))
                | Some d \<Rightarrow>
                    causes_loop (Causes d) (PatchStateError, ptr_To (status_Reason sErr)))) =
     (ps, reason)"
    by fastforce
  have "PatchFailure t uid (Some e) =
      Inr \<lparr>TypedObjectReference = t, UID = uid, Status = ps, Reason = reason,
           Message = Some (Error e)\<rparr>" for t uid
    by (simp add: PatchFailure_def c ptr_To_def)
  then show ?thesis
    by blast
qed

theorem PatchFailure_total_deterministic_witness:
  "\<exists>ps reason. \<forall>t uid.
     PatchFailure t uid (Some (StatusError conflict_status)) =
       Inr \<lparr>TypedObjectReference = t, UID = uid, Status = ps, Reason = reason,
            Message = Some (Error (StatusError conflict_status))\<rparr>"
  using PatchFailure_total_deterministic [of "StatusError conflict_status"] .

text \<open>
  Claim C6. For an object that was patched, \<open>PatchSuccess\<close> returns a record with status
  \<open>Success\<close> that carries the UID of the object and has no reason; and a record built by
  \<open>PatchSuccess\<close> or by \<open>PatchFailure\<close> has a reason only when its status is \<open>Skipped\<close>
  or \<open>Error\<close>.
\<close>

theorem PatchSuccess_record:
  "(\<exists>r. PatchSuccess (Some u) = Inr r \<and> Status r = ''Success'' \<and>
        UID r = Some (GetUID u) \<and> Reason r = None) \<and>
   (\<forall>r. PatchSuccess (Some u) = Inr r \<or> PatchFailure t uid err = Inr r \<longrightarrow>
        Reason r \<noteq> None \<longrightarrow> Status r = ''Skipped'' \<or> Status r = ''Error'')"
proof -
  have s: "PatchSuccess (Some u) =
      Inr \<lparr>TypedObjectReference =
             \<lparr>APIGroup = Some (GetAPIVersion u), Kind = GetKind u, Name = GetName u,
              Namespace = Some (GetNamespace u)\<rparr>,
           UID = Some (GetUID u), Status = ''Success'', Reason = None, Message = None\<rparr>"
    by (simp add: PatchSuccess_def ptr_To_def PatchStateSuccess_def)
  have f: "Status r = ''Skipped'' \<or> Status r = ''Error''"
    if "PatchFailure t uid err = Inr r" for r
  proof (cases err)
    case None
    with that show ?thesis
      by (simp add: PatchFailure_def)
  next
    case (Some e)
    from PatchFailure_states [of t uid e] that Some show ?thesis
      by auto
  qed
  from s f show ?thesis
    by auto
qed

theorem PatchSuccess_record_witness:
  "PatchSuccess (Some sample_object) =
     Inr \<lparr>TypedObjectReference = sample_ref, UID = Some ''7f1c'', Status = ''Success'',
          Reason = None, Message = None\<rparr> \<and>
   PatchFailure sample_ref sample_uid (Some (StatusError conflict_status)) =
     Inr \<lparr>TypedObjectReference = sample_ref, UID = sample_uid, Status = ''Skipped'',
          Reason = Some ''Conflict'', Message = Some (status_Message conflict_status)\<rparr> \<and>
   Reason \<lparr>TypedObjectReference = sample_ref, UID = sample_uid, Status = ''Skipped'',
          Reason = Some ''Conflict'', Message = Some (status_Message conflict_status)\<rparr> \<noteq> None \<and>
   (Status \<lparr>TypedObjectReference = sample_ref, UID = sample_uid, Status = ''Skipped'',
          Reason = Some ''Conflict'', Message = Some (status_Message conflict_status)\<rparr> = ''Skipped'' \<or>
    Status \<lparr>TypedObjectReference = sample_ref, UID = sample_uid, Status = ''Skipped'',
          Reason = Some ''Conflict'', Message = Some (status_Message conflict_status)\<rparr> = ''Error'')"
proof -
  have s: "PatchSuccess (Some sample_object) =
      Inr \<lparr>TypedObjectReference = sample_ref, UID = Some ''7f1c'', Status = ''Success'',
           Reason = None, Message = None\<rparr>"
    by (simp add: PatchSuccess_def sample_object_def sample_ref_def ptr_To_def
        PatchStateSuccess_def)
  have "\<not> IsInternalError (StatusError conflict_status)"
    by code_simp
  then have f: "PatchFailure sample_ref sample_uid (Some (StatusError conflict_status)) =
      Inr \<lparr>TypedObjectReference = sample_ref, UID = sample_uid, Status = ''Skipped'',
           Reason = Some ''Conflict'', Message = Some (status_Message conflict_status)\<rparr>"
    by (simp add: PatchFailure_def conflict_status_def conflict_details_def
        conflict_cause_def CauseTypeFieldManagerConflict_def ptr_To_def
        PatchStateSkipped_def PatchStateReasonConflict_def)
  show ?thesis
    using PatchSuccess_record
      [of sample_object sample_ref sample_uid "Some (StatusError conflict_status)"] s f
    by simp
qed

section \<open>Properties of the conditions and of \<open>String\<close>\<close>

text \<open>
  Claim C8. Whatever the clock reads, \<open>Traversed\<close> returns a condition of type \<open>Ready\<close>
  with status \<open>True\<close> and reason \<open>Traversed\<close>, and \<open>Deleted\<close> returns a condition of type
  \<open>Ready\<close> with status \<open>False\<close> and reason \<open>Deleted\<close>.
\<close>

theorem Traversed_Deleted_conditions:
  "cond_Type (Traversed now) = ''Ready'' \<and> cond_Status (Traversed now) = ''True'' \<and>
   cond_Reason (Traversed now) = ''Traversed'' \<and>
   cond_Type (Deleted now) = ''Ready'' \<and> cond_Status (Deleted now) = ''False'' \<and>
   cond_Reason (Deleted now) = ''Deleted''"
  by (simp add: Traversed_def Deleted_def TypeReady_def ConditionTrue_def ConditionFalse_def)

text \<open>
  Claim C10. \<open>String\<close> on the nil receiver returns \<open>nil\<close> without reading the record. On
  a record it returns the text of the embedded reference followed by the UID, the
  status, the reason and the message of the record, where a nil UID, reason or message
  is printed as the empty string.
\<close>

theorem String_nil_and_fields:
  "String None = ''nil'' \<and>
   String (Some r) =
     TypedObjectReference_String (TypedObjectReference r) @
     '', UID: '' @ [CHR 0x27] @ (case UID r of None \<Rightarrow> [] | Some u \<Rightarrow> u) @ [CHR 0x27] @
     '', Status: '' @ Status r @
     '', Reason: '' @ [CHR 0x27] @ (case Reason r of None \<Rightarrow> [] | Some x \<Rightarrow> x) @ [CHR 0x27] @
     '', Message: '' @ [CHR 0x27] @ (case Message r of None \<Rightarrow> [] | Some m \<Rightarrow> m) @ [CHR 0x27]"
  by (simp add: String_def ptr_Deref_def apostrophe_def)

theorem String_nil_and_fields_witness:
  "String None = ''nil'' \<and>
   String (Some \<lparr>TypedObjectReference = sample_ref, UID = None, Status = ''Error'',
                 Reason = None, Message = Some ''timeout''\<rparr>) =
     ''&TypedObjectReference{APIGroup:*example.org/v1,Kind:Bucket,Name:b1,Namespace:*default,}'' @
     '', UID: '' @ [CHR 0x27, CHR 0x27] @ '', Status: Error, Reason: '' @ [CHR 0x27, CHR 0x27] @
     '', Message: '' @ [CHR 0x27] @ ''timeout'' @ [CHR 0x27]"
  using String_nil_and_fields
    [of "\<lparr>TypedObjectReference = sample_ref, UID = None, Status = ''Error'',
          Reason = None, Message = Some ''timeout''\<rparr>"]
  by (simp add: TypedObjectReference_String_def valueToStringGenerated_def sample_ref_def)

section \<open>The round trip through JSON\<close>





lemma decode_fields_inline:
  "''objectRefs'' \<notin> fst ` set kvs \<Longrightarrow>
   decode_fields (Status_field dec) kvs s =
     map_sum id (\<lambda>x. s\<lparr>ResourceStatus := x\<rparr>) (decode_fields dec kvs (ResourceStatus s))"
proof (induction kvs arbitrary: s)
  case Nil
  then show ?case by simp
next
  case (Cons kv kvs)
  obtain k v where kv: "kv = (k, v)"
    by (cases kv)
  with Cons.prems have k: "k \<noteq> ''objectRefs''" and rest: "''objectRefs'' \<notin> fst ` set kvs"
    by auto
  show ?case
  proof (cases "dec kv (ResourceStatus s)")
    case (Inl e)
    with kv k show ?thesis
      by (simp add: Status_field_def)
  next
    case (Inr x)
    with kv k Cons.IH [OF rest, of "s\<lparr>ResourceStatus := x\<rparr>"] show ?thesis
      by (simp add: Status_field_def)
  qed
qed

text \<open>A slice of length zero that is not nil comes back nil; the rest of the status is kept.\<close>

lemma Status_roundtrip_empty:
  assumes "''objectRefs'' \<notin> fst ` set (enc (ResourceStatus s))"
    and "decode_fields dec (enc (ResourceStatus s)) zero = Inr (ResourceStatus s)"
    and "ObjectRefs s = Some []"
  shows "Unmarshal_Status dec zero (Marshal_Status enc s) = Inr (s\<lparr>ObjectRefs := None\<rparr>)"
proof -
  from decode_fields_inline [OF assms(1), of dec "\<lparr>ResourceStatus = zero, ObjectRefs = None\<rparr>"]
    assms(2)
  have "decode_fields (Status_field dec) (enc (ResourceStatus s))
      \<lparr>ResourceStatus = zero, ObjectRefs = None\<rparr> =
      Inr \<lparr>ResourceStatus = ResourceStatus s, ObjectRefs = None\<rparr>"
    by simp
  with assms(3) show ?thesis
    by (simp add: Unmarshal_Status_def Marshal_Status_def)
qed




end
